theory Spec2Isabelle
  imports
    Main
    "HOL-Library.Char_ord"
    "HOL-Library.List_Lexorder"
    "HOL-Library.Multiset"
begin

unbundle bit_operations_syntax

section \<open>A model of the Mixpanel export client (index.js)\<close>

text \<open>
  The client has two procedures: \<open>request\<close>, which reads a variadic argument list
  against the endpoint table, merges the layers of the parameter object with lodash's
  \<open>_.defaults\<close> and issues an HTTP GET, and \<open>sign\<close>, which hashes the sorted
  \<open>key=value\<close> strings followed by the secret. Both are embedded below as functions.

  Conventions of the model.
  \<^item> JavaScript values are the datatype \<open>jsval\<close>; numbers are the integers that
    a double holds exactly and prints in decimal, a function is identified by its
    source text, an object by its own enumerable properties in insertion order.
  \<^item> The table and the parameter object are plain objects: a read of a property
    they do not own finds the members of \<open>Object.prototype\<close>, which are listed in
    \<open>object_prototype_methods\<close> with the \<open>length\<close> of each function.
  \<^item> Strings are lists of 8-bit characters, read as the code units U+0000 to U+00FF;
    the order on them is the code-unit order that \<open>Array.prototype.sort\<close> uses.
  \<^item> The endpoint table \<open>api_specification\<close> is a parameter: an association list
    from endpoint name to the names of its required arguments, in enumeration order.
    No endpoint is named \<open>request\<close> or \<open>sign\<close>, so within \<open>request\<close> both
    methods are the ones defined in index.js.
  \<^item> \<open>Date.now()\<close> is the parameter \<open>now\<close>, in milliseconds.
  \<^item> A thrown \<open>Error\<close> is the left injection of a sum; the HTTP GET handed to the
    transport is recorded in a log.
  \<^item> The library functions (lodash, crypto, path) follow their documented behaviour:
    lodash 2.x for \<open>_.defaults\<close>, \<open>_.zipObject\<close>, \<open>_.pairs\<close>, RFC 1321 for MD5,
    and \<open>path.join\<close> throws a TypeError for an argument that is not a string.
\<close>

subsection \<open>JavaScript values\<close>

datatype jsval =
    JUndefined
  | JNull
  | JBool bool
  | JNum int
  | JStr string
  | JFunc string
  | JObj "(string \<times> jsval) list"

type_synonym obj = "(string \<times> jsval) list"

definition digit_char :: "nat \<Rightarrow> char" where
  "digit_char n = ''0123456789'' ! n"

fun show_nat :: "nat \<Rightarrow> string" where
  "show_nat n = (if n < 10 then [digit_char n] else show_nat (n div 10) @ [digit_char (n mod 10)])"

declare show_nat.simps [simp del]

text \<open>
  Number to string, in decimal. A double prints so when it is an integer below
  \<open>10 ^ 21\<close> in absolute value; larger numbers are outside the model.
\<close>

definition show_int :: "int \<Rightarrow> string" where
  "show_int i = (if i < 0 then CHR ''-'' # show_nat (nat (- i)) else show_nat (nat i))"

text \<open>The abstract operation ToString, used for property keys and string concatenation.\<close>

fun to_string :: "jsval \<Rightarrow> string" where
  "to_string JUndefined = ''undefined''"
| "to_string JNull = ''null''"
| "to_string (JBool b) = (if b then ''true'' else ''false'')"
| "to_string (JNum n) = show_int n"
| "to_string (JStr s) = s"
| "to_string (JFunc src) = src"
| "to_string (JObj ps) = ''[object Object]''"

text \<open>\<open>Array.prototype.join\<close> renders undefined and null elements as the empty string.\<close>

fun join_item :: "jsval \<Rightarrow> string" where
  "join_item JUndefined = ''''"
| "join_item JNull = ''''"
| "join_item v = to_string v"

text \<open>ToBoolean, as \<open>!callback\<close> reads it.\<close>

fun truthy :: "jsval \<Rightarrow> bool" where
  "truthy JUndefined = False"
| "truthy JNull = False"
| "truthy (JBool b) = b"
| "truthy (JNum n) = (n \<noteq> 0)"
| "truthy (JStr s) = (s \<noteq> [])"
| "truthy (JFunc src) = True"
| "truthy (JObj ps) = True"

text \<open>\<open>typeof v === 'function'\<close>.\<close>

fun is_function :: "jsval \<Rightarrow> bool" where
  "is_function (JFunc src) = True"
| "is_function v = False"

text \<open>\<open>xs[i]\<close> on an array: undefined out of range.\<close>

fun index :: "jsval list \<Rightarrow> nat \<Rightarrow> jsval" where
  "index [] i = JUndefined"
| "index (x # xs) 0 = x"
| "index (x # xs) (Suc i) = index xs i"

subsection \<open>Objects and the lodash helpers\<close>

text \<open>
  The function members of \<open>Object.prototype\<close> in Node, each with its \<open>length\<close>.
  The remaining member is the accessor \<open>__proto__\<close>, whose value is the prototype
  itself.
\<close>

definition object_prototype_methods :: "(string \<times> nat) list" where
  "object_prototype_methods =
     [(''constructor'', 1), (''toString'', 0), (''toLocaleString'', 0), (''valueOf'', 0),
      (''hasOwnProperty'', 1), (''isPrototypeOf'', 1), (''propertyIsEnumerable'', 1),
      (''__defineGetter__'', 2), (''__defineSetter__'', 2),
      (''__lookupGetter__'', 1), (''__lookupSetter__'', 1)]"

definition object_prototype_names :: "string list" where
  "object_prototype_names = map fst object_prototype_methods @ [''__proto__'']"

text \<open>The value of an own property \<open>k\<close>: undefined when the object does not own it.\<close>

definition get_prop :: "obj \<Rightarrow> string \<Rightarrow> jsval" where
  "get_prop ps k = (case map_of ps k of None \<Rightarrow> JUndefined | Some v \<Rightarrow> v)"

text \<open>
  \<open>typeof o[k] == 'undefined'\<close> on a plain object: an own property decides by its
  value; without one, the read finds a member of the prototype or nothing.
\<close>

definition reads_undefined :: "obj \<Rightarrow> string \<Rightarrow> bool" where
  "reads_undefined ps k =
     (case map_of ps k of
        None \<Rightarrow> k \<notin> set object_prototype_names
      | Some v \<Rightarrow> v = JUndefined)"

text \<open>\<open>o[k] = v\<close>: an existing property keeps its place, a new one goes last.\<close>

fun set_prop :: "obj \<Rightarrow> string \<Rightarrow> jsval \<Rightarrow> obj" where
  "set_prop [] k v = [(k, v)]"
| "set_prop (p # ps) k v = (if fst p = k then (k, v) # ps else p # set_prop ps k v)"

text \<open>The own enumerable properties that \<open>_.defaults\<close> reads from a source.\<close>

fun own_props :: "jsval \<Rightarrow> obj" where
  "own_props (JObj ps) = ps"
| "own_props v = []"

text \<open>
  \<open>_.zipObject(keys, values)\<close>: \<open>result[keys[i]] = values[i]\<close> for each index. An
  assignment to \<open>__proto__\<close> goes to the accessor and adds no own property.
\<close>

fun zipObject_into :: "obj \<Rightarrow> string list \<Rightarrow> jsval list \<Rightarrow> obj" where
  "zipObject_into r [] vs = r"
| "zipObject_into r (k # ks) vs =
     zipObject_into (if k = ''__proto__'' then r else set_prop r k (index vs 0)) ks (tl vs)"

definition zipObject :: "string list \<Rightarrow> jsval list \<Rightarrow> obj" where
  "zipObject ks vs = zipObject_into [] ks vs"

text \<open>
  \<open>_.defaults(object, source1, ...)\<close>: a property of a source is assigned only where
  \<open>typeof object[key]\<close> is still undefined, so the first layer that defines a key
  keeps it, and a key that names a member of the prototype is never assigned.
\<close>

definition assign_default :: "string \<times> jsval \<Rightarrow> obj \<Rightarrow> obj" where
  "assign_default p dest =
     (if reads_undefined dest (fst p) then set_prop dest (fst p) (snd p) else dest)"

definition defaults :: "obj \<Rightarrow> jsval list \<Rightarrow> obj" where
  "defaults dest sources = fold (\<lambda>src d. fold assign_default (own_props src) d) sources dest"

subsection \<open>MD5 (RFC 1321) over bytes, 32-bit words as naturals modulo \<open>2 ^ 32\<close>\<close>

type_synonym u32 = nat

definition md5_K :: "u32 list" where
  "md5_K =
    [3614090360, 3905402710, 606105819, 3250441966, 4118548399, 1200080426, 2821735955,
     4249261313, 1770035416, 2336552879, 4294925233, 2304563134, 1804603682, 4254626195,
     2792965006, 1236535329, 4129170786, 3225465664, 643717713, 3921069994, 3593408605,
     38016083, 3634488961, 3889429448, 568446438, 3275163606, 4107603335, 1163531501,
     2850285829, 4243563512, 1735328473, 2368359562, 4294588738, 2272392833, 1839030562,
     4259657740, 2763975236, 1272893353, 4139469664, 3200236656, 681279174, 3936430074,
     3572445317, 76029189, 3654602809, 3873151461, 530742520, 3299628645, 4096336452,
     1126891415, 2878612391, 4237533241, 1700485571, 2399980690, 4293915773, 2240044497,
     1873313359, 4264355552, 2734768916, 1309151649, 4149444226, 3174756917, 718787259,
     3951481745]"

definition md5_S :: "nat list" where
  "md5_S =
    [7, 12, 17, 22, 7, 12, 17, 22, 7, 12, 17, 22, 7, 12, 17, 22,
     5, 9, 14, 20, 5, 9, 14, 20, 5, 9, 14, 20, 5, 9, 14, 20,
     4, 11, 16, 23, 4, 11, 16, 23, 4, 11, 16, 23, 4, 11, 16, 23,
     6, 10, 15, 21, 6, 10, 15, 21, 6, 10, 15, 21, 6, 10, 15, 21]"

definition add32 :: "u32 \<Rightarrow> u32 \<Rightarrow> u32" where
  "add32 x y = (x + y) mod 4294967296"

definition rotl32 :: "nat \<Rightarrow> u32 \<Rightarrow> u32" where
  "rotl32 n x = (x * 2 ^ n) mod 4294967296 + x div 2 ^ (32 - n)"

definition not32 :: "u32 \<Rightarrow> u32" where
  "not32 x = 4294967295 - x"

definition md5_f :: "nat \<Rightarrow> u32 \<Rightarrow> u32 \<Rightarrow> u32 \<Rightarrow> u32" where
  "md5_f i b c d =
     (if i < 16 then (b AND c) OR (not32 b AND d)
      else if i < 32 then (d AND b) OR (not32 d AND c)
      else if i < 48 then b XOR c XOR d
      else c XOR (b OR not32 d))"

definition md5_g :: "nat \<Rightarrow> nat" where
  "md5_g i =
     (if i < 16 then i
      else if i < 32 then (5 * i + 1) mod 16
      else if i < 48 then (3 * i + 5) mod 16
      else (7 * i) mod 16)"

type_synonym md5_state = "u32 \<times> u32 \<times> u32 \<times> u32"

fun md5_step :: "u32 list \<Rightarrow> nat \<Rightarrow> md5_state \<Rightarrow> md5_state" where
  "md5_step m i (a, b, c, d) =
     (d,
      add32 b (rotl32 (md5_S ! i)
        (add32 (add32 (add32 (md5_f i b c d) a) (md5_K ! i)) (m ! md5_g i))),
      b, c)"

fun md5_block :: "md5_state \<Rightarrow> u32 list \<Rightarrow> md5_state" where
  "md5_block (a0, b0, c0, d0) m =
     (case fold (md5_step m) [0..<64] (a0, b0, c0, d0) of
        (a, b, c, d) \<Rightarrow> (add32 a0 a, add32 b0 b, add32 c0 c, add32 d0 d))"

definition le_bytes :: "nat \<Rightarrow> nat \<Rightarrow> nat list" where
  "le_bytes k n = map (\<lambda>i. (n div 256 ^ i) mod 256) [0..<k]"

definition md5_pad :: "nat list \<Rightarrow> nat list" where
  "md5_pad bs =
     bs @ [128] @ replicate ((119 - length bs mod 64) mod 64) 0
        @ le_bytes 8 ((8 * length bs) mod 2 ^ 64)"

fun le_words :: "nat list \<Rightarrow> u32 list" where
  "le_words (b0 # b1 # b2 # b3 # bs) =
     (b0 + 256 * b1 + 65536 * b2 + 16777216 * b3) # le_words bs"
| "le_words bs = []"

fun chunks :: "nat \<Rightarrow> 'a list \<Rightarrow> 'a list list" where
  "chunks n [] = []"
| "chunks n (x # xs) =
     (if n = 0 then [] else take n (x # xs) # chunks n (drop n (x # xs)))"

definition md5_init :: md5_state where
  "md5_init = (1732584193, 4023233417, 2562383102, 271733878)"

definition md5 :: "nat list \<Rightarrow> nat list" where
  "md5 bs =
     (case fold (\<lambda>blk st. md5_block st (le_words blk)) (chunks 64 (md5_pad bs)) md5_init of
        (a, b, c, d) \<Rightarrow> concat (map (le_bytes 4) [a, b, c, d]))"

text \<open>\<open>digest('hex')\<close>: two lowercase hexadecimal digits for each byte.\<close>

definition hex_digit :: "nat \<Rightarrow> char" where
  "hex_digit n = ''0123456789abcdef'' ! n"

definition hex :: "nat list \<Rightarrow> string" where
  "hex bs = concat (map (\<lambda>b. [hex_digit (b div 16), hex_digit (b mod 16)]) bs)"

text \<open>\<open>update(s, 'utf8')\<close>: a code unit below 128 is one byte, one below 256 two.\<close>

definition utf8 :: "string \<Rightarrow> nat list" where
  "utf8 s =
     concat (map (\<lambda>c. if of_char c < (128 :: nat) then [of_char c]
                       else [192 + of_char c div 64, 128 + of_char c mod 64]) s)"

subsection \<open>The client\<close>

record client_options =
  domain :: string
  apiRoot :: string
  protocol :: string
  expire :: int

definition defaultOptions :: client_options where
  "defaultOptions =
     \<lparr>domain = ''mixpanel.com'', apiRoot = ''/api/2.0'', protocol = ''https'', expire = 60\<rparr>"

definition systemOptions :: jsval where
  "systemOptions = JObj [(''format'', JStr ''json'')]"

record client =
  key :: string
  secret :: string
  options :: client_options

type_synonym spec = "(string \<times> string list) list"

subsection \<open>sign (lines 150 to 163)\<close>

definition joinPairs :: "string \<times> jsval \<Rightarrow> string" where
  "joinPairs pair = fst pair @ ''='' @ join_item (snd pair)"

definition concatenated :: "client \<Rightarrow> obj \<Rightarrow> string" where
  "concatenated this parameters = concat (sort (map joinPairs parameters)) @ secret this"

definition sign :: "client \<Rightarrow> obj \<Rightarrow> string" where
  "sign this parameters = hex (md5 (utf8 (concatenated this parameters)))"

subsection \<open>request (lines 80 to 140)\<close>

datatype error =
    UnsupportedEndpoint string
  | MissingCallback
  | MissingRequiredArgument
  | PathJoinTypeError

text \<open>
  The message of the \<open>Error\<close> that is thrown. The last error is the TypeError of
  \<open>path.join\<close> at line 128, with the message of Node 0.10.
\<close>

fun message :: "error \<Rightarrow> string" where
  "message (UnsupportedEndpoint e) =
     ''The end-point '' @ [CHR 0x22] @ e @ [CHR 0x22]
       @ '' is not supported by the mixpanel export api.''"
| "message MissingCallback = ''A callback is required.''"
| "message MissingRequiredArgument = ''A required argument for this endpoint is missing.''"
| "message PathJoinTypeError = ''Arguments to path.join must be strings''"

text \<open>\<open>args.shift()\<close>: the first argument, undefined when there is none, and the rest.\<close>

fun shift :: "jsval list \<Rightarrow> jsval \<times> jsval list" where
  "shift [] = (JUndefined, [])"
| "shift (a # as) = (a, as)"

text \<open>
  Line 90, \<open>spec[endPoint]\<close>: the table's own entry, an array of names; or, for a
  name the table does not own, the member of \<open>Object.prototype\<close> of that name, a
  function or (for \<open>__proto__\<close>) the prototype object; or undefined.
\<close>

datatype spec_value = Names "string list" | Method nat | ObjectPrototype

definition spec_lookup :: "spec \<Rightarrow> string \<Rightarrow> spec_value option" where
  "spec_lookup api name =
     (case map_of api name of
        Some requiredArguments \<Rightarrow> Some (Names requiredArguments)
      | None \<Rightarrow>
          (case map_of object_prototype_methods name of
             Some n \<Rightarrow> Some (Method n)
           | None \<Rightarrow> if name = ''__proto__'' then Some ObjectPrototype else None))"

text \<open>\<open>requiredArguments.length\<close>: the prototype object has none.\<close>

fun value_length :: "spec_value \<Rightarrow> nat option" where
  "value_length (Names requiredArguments) = Some (length requiredArguments)"
| "value_length (Method n) = Some n"
| "value_length ObjectPrototype = None"

text \<open>
  The keys that \<open>_.zipObject\<close> reads, \<open>requiredArguments[i]\<close> for each index below
  the length: an index of a function is undefined, which as a key is the string
  \<open>undefined\<close>.
\<close>

fun value_keys :: "spec_value \<Rightarrow> string list" where
  "value_keys (Names requiredArguments) = requiredArguments"
| "value_keys (Method n) = replicate n ''undefined''"
| "value_keys ObjectPrototype = []"

text \<open>\<open>typeof p === 'string'\<close>, the test of \<open>path.join\<close>.\<close>

fun is_string :: "jsval \<Rightarrow> bool" where
  "is_string (JStr s) = True"
| "is_string v = False"

text \<open>
  Lines 96 to 111: the required values, the options and the callback are read off by
  position; \<open>n\<close> is \<open>requiredArguments.length\<close>.
\<close>

definition call_shape :: "nat \<Rightarrow> jsval list \<Rightarrow> error + (jsval list \<times> jsval \<times> jsval)" where
  "call_shape n args =
     (let required = take n args;
          options0 = index args n;
          callback0 = index args (n + 1);
          callback = (if is_function options0 then options0 else callback0);
          options = (if is_function options0 then JObj [] else options0)
      in if \<not> truthy callback then Inl MissingCallback
         else if length required \<noteq> n then Inl MissingRequiredArgument
         else Inr (required, options, callback))"

text \<open>
  The same lines where \<open>requiredArguments.length\<close> is undefined: the slice up to
  undefined is the whole array, \<open>args[undefined]\<close> and \<open>args[NaN]\<close> are undefined,
  and no length equals undefined.
\<close>

definition call_shape_no_length :: "jsval list \<Rightarrow> error + (jsval list \<times> jsval \<times> jsval)" where
  "call_shape_no_length args =
     (let required = args;
          options0 = JUndefined;
          callback0 = JUndefined;
          callback = (if is_function options0 then options0 else callback0)
      in if \<not> truthy callback then Inl MissingCallback
         else Inl MissingRequiredArgument)"

text \<open>Lines 115 to 121: the layers of the parameter object.\<close>

definition assemble ::
  "client \<Rightarrow> string list \<Rightarrow> jsval list \<Rightarrow> jsval \<Rightarrow> int \<Rightarrow> obj" where
  "assemble this requiredArguments required opts now =
     defaults [(''api_key'', JStr (key this))]
       [systemOptions,
        JObj (zipObject requiredArguments required),
        opts,
        JObj [(''expire'', JNum (now div 1000 + expire (client.options this)))]]"

text \<open>
  The GET handed to the transport: the fields given to \<open>url.format\<close>, the path as the
  two arguments of \<open>path.join\<close>, and the callback.
\<close>

record http_call =
  url_protocol :: string
  url_hostname :: string
  url_pathname :: "string \<times> jsval"
  url_query :: obj
  on_response :: jsval

definition request_call :: "spec \<Rightarrow> client \<Rightarrow> int \<Rightarrow> jsval list \<Rightarrow> error + http_call" where
  "request_call api this now arguments =
     (case shift arguments of
        (endPoint, args) \<Rightarrow>
          (case spec_lookup api (to_string endPoint) of
             None \<Rightarrow> Inl (UnsupportedEndpoint (to_string endPoint))
           | Some requiredArguments \<Rightarrow>
               (case (case value_length requiredArguments of
                        Some n \<Rightarrow> call_shape n args
                      | None \<Rightarrow> call_shape_no_length args) of
                  Inl e \<Rightarrow> Inl e
                | Inr (required, opts, callback) \<Rightarrow>
                    (let parameters =
                           assemble this (value_keys requiredArguments) required opts now;
                         signed = set_prop parameters ''sig'' (JStr (sign this parameters))
                     in if is_string endPoint
                        then Inr \<lparr>url_protocol = protocol (client.options this),
                                  url_hostname = domain (client.options this),
                                  url_pathname = (apiRoot (client.options this), endPoint),
                                  url_query = signed,
                                  on_response = callback\<rparr>
                        else Inl PathJoinTypeError))))"

text \<open>The whole call: a thrown error leaves the log of issued GETs as it was.\<close>

definition request ::
  "spec \<Rightarrow> client \<Rightarrow> int \<Rightarrow> jsval list \<Rightarrow> http_call list \<Rightarrow> (error + unit) \<times> http_call list" where
  "request api this now arguments net =
     (case request_call api this now arguments of
        Inl e \<Rightarrow> (Inl e, net)
      | Inr call \<Rightarrow> (Inr (), net @ [call]))"

subsection \<open>The generated methods (lines 185 to 197)\<close>






section \<open>Evaluation lemmas\<close>

lemma upt_0_16: "[0..<16] = [0, 1, 2, 3, 4, 5, 6, 7, 8, 9, 10, 11, 12, 13, 14, 15]"
  by (simp add: upt_conv_Cons)

lemma upt_0_64: "[0..<64] = [0..<16] @ [16..<64]"
  using upt_add_eq_append [of 0 16 48] by simp

lemma upt_0_8: "[0..<8] = [0..<4] @ [4, 5, 6, 7]"
  using upt_add_eq_append [of 0 4 4] by simp

lemma upt_0_4: "[0..<4] = [0, Suc 0, 2, 3]"
  by (simp add: upt_conv_Cons)

lemma replicate_numeral: "replicate (numeral v) x = x # replicate (numeral v - 1) x"
  by (simp add: numeral_eq_Suc)

lemmas md5_eval =
  hex_def hex_digit_def md5_def md5_pad_def utf8_def le_bytes_def upt_0_64 upt_0_16 upt_0_8 upt_0_4
  replicate_numeral md5_init_def md5_K_def md5_S_def md5_f_def md5_g_def rotl32_def
  not32_def add32_def

text \<open>Two digests of the test suite of RFC 1321, the second over two blocks.\<close>

lemma md5_abc: "hex (md5 (utf8 ''abc'')) = ''900150983cd24fb0d6963f7d28e17f72''"
  by (simp add: md5_eval)

lemma md5_two_blocks:
  "hex (md5 (utf8
     ''12345678901234567890123456789012345678901234567890123456789012345678901234567890''))
     = ''57edf4a22be3c955ac49da2e2107b67a''"
  by (simp add: md5_eval)

section \<open>Properties of the helpers\<close>

lemma get_prop_set_prop: "get_prop (set_prop ps k v) k' = (if k' = k then v else get_prop ps k')"
  by (induction ps) (auto simp: get_prop_def)

lemma own_names:
  "''api_key'' \<notin> set object_prototype_names"
  "''format'' \<notin> set object_prototype_names"
  "''expire'' \<notin> set object_prototype_names"
  by (simp_all add: object_prototype_names_def object_prototype_methods_def)

lemma reads_undefined_own:
  "k \<notin> set object_prototype_names \<Longrightarrow> reads_undefined d k = (get_prop d k = JUndefined)"
  by (simp add: reads_undefined_def get_prop_def split: option.splits)

lemma defined_not_reads_undefined:
  "get_prop d k \<noteq> JUndefined \<Longrightarrow> \<not> reads_undefined d k"
  by (simp add: reads_undefined_def get_prop_def split: option.splits)

lemma get_prop_assign_default:
  "get_prop (assign_default p d) k =
     (if k = fst p \<and> reads_undefined d k then snd p else get_prop d k)"
  by (auto simp: assign_default_def get_prop_set_prop)

lemma fold_assign_default_absent:
  "k \<notin> fst ` set src \<Longrightarrow> get_prop (fold assign_default src d) k = get_prop d k"
  by (induction src arbitrary: d) (auto simp: get_prop_assign_default)

lemma fold_assign_default_keeps:
  "get_prop d k \<noteq> JUndefined \<Longrightarrow> get_prop (fold assign_default src d) k = get_prop d k"
  by (induction src arbitrary: d)
     (auto simp: get_prop_assign_default defined_not_reads_undefined)

lemma fold_assign_default_fills:
  assumes "k \<notin> set object_prototype_names"
  shows "get_prop d k = JUndefined \<Longrightarrow> get_prop src k \<noteq> JUndefined
     \<Longrightarrow> get_prop (fold assign_default src d) k = get_prop src k"
proof (induction src arbitrary: d)
  case Nil
  then show ?case by (simp add: get_prop_def)
next
  case (Cons p src)
  show ?case
  proof (cases "fst p = k")
    case True
    with Cons.prems have v: "snd p \<noteq> JUndefined" "get_prop (p # src) k = snd p"
      by (auto simp: get_prop_def)
    have "get_prop (assign_default p d) k = snd p"
      using True Cons.prems(1) assms by (simp add: get_prop_assign_default reads_undefined_own)
    with v show ?thesis
      by (simp add: fold_assign_default_keeps)
  next
    case False
    then have "get_prop (assign_default p d) k = JUndefined"
      using Cons.prems(1) by (simp add: get_prop_assign_default)
    moreover from False have "get_prop src k = get_prop (p # src) k"
      by (simp add: get_prop_def)
    ultimately show ?thesis
      using Cons.IH [of "assign_default p d"] Cons.prems(2) by simp
  qed
qed

lemma defaults_Nil: "defaults d [] = d"
  by (simp add: defaults_def)

lemma defaults_Cons: "defaults d (s # ss) = defaults (fold assign_default (own_props s) d) ss"
  by (simp add: defaults_def)

lemma defaults_keeps:
  "get_prop d k \<noteq> JUndefined \<Longrightarrow> get_prop (defaults d ss) k = get_prop d k"
  by (induction ss arbitrary: d) (simp_all add: defaults_Nil defaults_Cons fold_assign_default_keeps)

lemma zipObject_into_absent:
  "k \<notin> set ks \<Longrightarrow> get_prop (zipObject_into r ks vs) k = get_prop r k"
  by (induction ks arbitrary: r vs) (auto simp: get_prop_set_prop)

lemma keys_set_prop: "fst ` set (set_prop ps k v) = insert k (fst ` set ps)"
  by (induction ps) auto

lemma zipObject_into_key_absent:
  "k \<notin> set ks \<Longrightarrow> k \<notin> fst ` set r \<Longrightarrow> k \<notin> fst ` set (zipObject_into r ks vs)"
proof (induction ks arbitrary: r vs)
  case Nil
  then show ?case by simp
next
  case (Cons a ks)
  from Cons.prems have "k \<notin> fst ` set (if a = ''__proto__'' then r else set_prop r a (index vs 0))"
    by (simp add: keys_set_prop)
  with Cons.prems(1) Cons.IH show ?case
    by simp
qed

lemma zipObject_key_absent: "k \<notin> set ks \<Longrightarrow> k \<notin> fst ` set (zipObject ks vs)"
  by (simp add: zipObject_def zipObject_into_key_absent)

lemma index_tl: "index (tl vs) i = index vs (Suc i)"
  by (cases vs) simp_all

lemma index_nth: "i < length xs \<Longrightarrow> index xs i = xs ! i"
  by (induction xs i rule: index.induct) simp_all

lemma index_beyond: "length xs \<le> i \<Longrightarrow> index xs i = JUndefined"
  by (induction xs i rule: index.induct) simp_all

lemma zipObject_into_nth:
  "distinct ks \<Longrightarrow> i < length ks \<Longrightarrow> ks ! i \<noteq> ''__proto__''
     \<Longrightarrow> get_prop (zipObject_into r ks vs) (ks ! i) = index vs i"
proof (induction ks arbitrary: r vs i)
  case Nil
  then show ?case by simp
next
  case (Cons k ks)
  show ?case
  proof (cases i)
    case 0
    with Cons.prems show ?thesis
      by (simp add: zipObject_into_absent get_prop_set_prop)
  next
    case (Suc j)
    with Cons show ?thesis
      by (simp add: index_tl)
  qed
qed

lemma filter_sig_set_prop:
  "filter (\<lambda>p. fst p \<noteq> k) (set_prop ps k v) = filter (\<lambda>p. fst p \<noteq> k) ps"
  by (induction ps) auto




lemma sort_cong_mset:
  fixes xs ys :: "string list"
  assumes "mset xs = mset ys"
  shows "sort xs = sort ys"
  by (rule properties_for_sort) (simp_all add: assms)

lemma call_shape_required:
  "call_shape n args \<noteq> Inl MissingRequiredArgument"
proof -
  have "length (take n args) = n" if "truthy (if is_function (index args n) then index args n else index args (n + 1))"
  proof -
    have "\<not> length args \<le> n"
    proof
      assume "length args \<le> n"
      then have "index args n = JUndefined" "index args (n + 1) = JUndefined"
        by (simp_all add: index_beyond)
      with that show False by simp
    qed
    then show ?thesis by simp
  qed
  then show ?thesis
    by (auto simp: call_shape_def Let_def)
qed

lemma assemble_layers:
  "assemble this requiredArguments required opts now =
     assign_default (''expire'', JNum (now div 1000 + expire (client.options this)))
       (fold assign_default (own_props opts)
         (fold assign_default (zipObject requiredArguments required)
           (assign_default (''format'', JStr ''json'') [(''api_key'', JStr (key this))])))"
  by (simp add: assemble_def defaults_def systemOptions_def)

lemma base_layers:
  "get_prop (assign_default (''format'', JStr ''json'') [(''api_key'', JStr k)]) name =
     (if name = ''api_key'' then JStr k else if name = ''format'' then JStr ''json'' else JUndefined)"
  by (simp add: get_prop_assign_default reads_undefined_def own_names) (simp add: get_prop_def)

lemma assemble_format:
  "get_prop (assemble this requiredArguments required opts now) ''format'' = JStr ''json''"
proof -
  let ?d1 = "assign_default (''format'', JStr ''json'') [(''api_key'', JStr (key this))]"
  have "get_prop ?d1 ''format'' = JStr ''json''"
    by (simp add: base_layers)
  then have "get_prop (fold assign_default (zipObject requiredArguments required) ?d1) ''format''
               = JStr ''json''"
    by (simp add: fold_assign_default_keeps)
  then have "get_prop (fold assign_default (own_props opts)
               (fold assign_default (zipObject requiredArguments required) ?d1)) ''format''
               = JStr ''json''"
    by (simp add: fold_assign_default_keeps)
  then show ?thesis
    by (simp add: assemble_layers get_prop_assign_default)
qed

lemma get_prop_zipObject:
  "distinct ks \<Longrightarrow> i < length ks \<Longrightarrow> ks ! i \<noteq> ''__proto__''
     \<Longrightarrow> get_prop (zipObject ks vs) (ks ! i) = index vs i"
  by (simp add: zipObject_def zipObject_into_nth)

lemma spec_lookup_own:
  "map_of api name = Some requiredArguments \<Longrightarrow> spec_lookup api name = Some (Names requiredArguments)"
  by (simp add: spec_lookup_def)

lemma call_shape_no_length: "call_shape_no_length args = Inl MissingCallback"
  by (simp add: call_shape_no_length_def)

lemmas request_eval =
  request_def request_call_def spec_lookup_def call_shape_def assemble_def defaults_def
  assign_default_def reads_undefined_def object_prototype_names_def
  object_prototype_methods_def get_prop_def systemOptions_def zipObject_def
  defaultOptions_def Let_def

section \<open>The signature\<close>

text \<open>A signature is always 32 characters long.\<close>

lemma sign_length: "length (sign this parameters) = 32"
  by (simp add: sign_def hex_def md5_def le_bytes_def upt_0_4 length_concat o_def
           split: prod.splits)

text \<open>
  C3. For the parameter map \<open>{api_key: "k", format: "json", expire: 1000}\<close> and the
  secret \<open>"s"\<close>, \<open>sign\<close> returns the lowercase hexadecimal MD5 digest of the UTF-8
  bytes of \<open>"api_key=kexpire=1000format=json"\<close> followed by \<open>"s"\<close>; the digest is
  the 32 characters \<open>8d880afa11a211427e9f6e8b4fcf3f5a\<close>.
\<close>

theorem sign_known_vector:
  "sign (this\<lparr>secret := ''s''\<rparr>)
      [(''api_key'', JStr ''k''), (''format'', JStr ''json''), (''expire'', JNum 1000)]
     = hex (md5 (utf8 (''api_key=kexpire=1000format=json'' @ ''s'')))
   \<and> sign (this\<lparr>secret := ''s''\<rparr>)
      [(''api_key'', JStr ''k''), (''format'', JStr ''json''), (''expire'', JNum 1000)]
     = ''8d880afa11a211427e9f6e8b4fcf3f5a''"
proof -
  have c: "concatenated (this\<lparr>secret := ''s''\<rparr>)
      [(''api_key'', JStr ''k''), (''format'', JStr ''json''), (''expire'', JNum 1000)]
        = ''api_key=kexpire=1000format=jsons''"
    by (simp add: concatenated_def joinPairs_def show_int_def show_nat.simps digit_char_def)
  have d: "hex (md5 (utf8 ''api_key=kexpire=1000format=jsons''))
             = ''8d880afa11a211427e9f6e8b4fcf3f5a''"
    by (simp add: md5_eval)
  show ?thesis
    by (simp add: sign_def c d)
qed

text \<open>
  C4. For every secret, two parameter maps with the same key/value pairs, whatever
  their insertion order, have the same signature: the \<open>key=value\<close> strings are sorted
  before they are concatenated.
\<close>

theorem sign_insertion_order:
  assumes "distinct (map fst ps)" and "distinct (map fst qs)" and "set ps = set qs"
  shows "sign this ps = sign this qs"
proof -
  from assms(1,2) have "distinct ps" "distinct qs"
    by (simp_all add: distinct_map)
  with assms(3) have "mset ps = mset qs"
    by (simp add: set_eq_iff_mset_eq_distinct)
  then have "mset (map joinPairs ps) = mset (map joinPairs qs)"
    by simp
  then have "sort (map joinPairs ps) = sort (map joinPairs qs)"
    by (rule sort_cong_mset)
  then show ?thesis
    by (simp add: sign_def concatenated_def)
qed

theorem sign_insertion_order_witness:
  "distinct (map fst [(''b'', JNum 2), (''a'', JNum 1)])
   \<and> distinct (map fst [(''a'', JNum 1), (''b'', JNum 2)])
   \<and> set [(''b'', JNum 2), (''a'', JNum 1)] = set [(''a'', JNum 1), (''b'', JNum 2)]
   \<and> sign \<lparr>key = ''K'', secret = ''secret'', options = defaultOptions\<rparr>
        [(''b'', JNum 2), (''a'', JNum 1)]
     = sign \<lparr>key = ''K'', secret = ''secret'', options = defaultOptions\<rparr>
        [(''a'', JNum 1), (''b'', JNum 2)]"
proof -
  have d1: "distinct (map fst [(''b'', JNum 2), (''a'', JNum 1)])" by simp
  have d2: "distinct (map fst [(''a'', JNum 1), (''b'', JNum 2)])" by simp
  have s: "set [(''b'', JNum 2), (''a'', JNum 1)] = set [(''a'', JNum 1), (''b'', JNum 2)]"
    by auto
  from sign_insertion_order [OF d1 d2 s] d1 d2 s show ?thesis
    by blast
qed

section \<open>The shape of a call\<close>

text \<open>
  A name that the table does not own and \<open>Object.prototype\<close> does not have is
  rejected with the unsupported-endpoint error, and the log of issued GETs is left as it
  was: nothing is sent.
\<close>

lemma absent_endpoint_throws:
  assumes "spec_lookup api (to_string (fst (shift arguments))) = None"
  shows "request api this now arguments net
           = (Inl (UnsupportedEndpoint (to_string (fst (shift arguments)))), net)"
  using assms by (cases "shift arguments") (simp add: request_def request_call_def)

text \<open>
  C7, at the input where the code departs from it. The statement is that every call
  whose endpoint name is not in the endpoint table throws the unsupported-endpoint error
  and sends nothing. The lookup at line 90 is \<open>spec[endPoint]\<close> with no test of
  ownership, so \<open>request('toString', cb)\<close> on a table that has only
  \<open>events/top\<close> finds \<open>Object.prototype.toString\<close>, a function of length 0: the
  call throws nothing and a GET for \<open>/api/2.0/toString\<close> is issued.
\<close>

theorem inherited_endpoint_accepted:
  "map_of [(''events/top'', [])] ''toString'' = None
   \<and> request [(''events/top'', [])] \<lparr>key = ''K'', secret = ''S'', options = defaultOptions\<rparr> 1000000 [JStr ''toString'', JFunc ''cb''] []
     = (Inr (),
        [\<lparr>url_protocol = ''https'', url_hostname = ''mixpanel.com'',
          url_pathname = (''/api/2.0'', JStr ''toString''),
          url_query =
            [(''api_key'', JStr ''K''), (''format'', JStr ''json''), (''expire'', JNum 1060),
             (''sig'', JStr (sign \<lparr>key = ''K'', secret = ''S'', options = defaultOptions\<rparr>
                [(''api_key'', JStr ''K''), (''format'', JStr ''json''),
                 (''expire'', JNum 1060)]))],
          on_response = JFunc ''cb''\<rparr>])"
  by (simp add: request_eval)

text \<open>
  C10. On a supported endpoint with \<open>N\<close> required arguments, a call with at most
  \<open>N\<close> arguments after the endpoint name (so in particular with fewer than \<open>N\<close>)
  throws the missing-callback error, also when the last of them is a callback function:
  the slice of the first \<open>N\<close> arguments has taken it. And no call at all throws the
  missing-required-argument error.
\<close>

theorem missing_required_unreachable:
  "(map_of api (to_string endPoint) = Some requiredArguments
      \<and> length args \<le> length requiredArguments
      \<longrightarrow> request api this now (endPoint # args) net = (Inl MissingCallback, net))
   \<and> fst (request api' this' now' arguments net') \<noteq> Inl MissingRequiredArgument"
proof (intro conjI impI)
  assume a: "map_of api (to_string endPoint) = Some requiredArguments
      \<and> length args \<le> length requiredArguments"
  then have "index args (length requiredArguments) = JUndefined"
      "index args (length requiredArguments + 1) = JUndefined"
    by (simp_all add: index_beyond)
  then have "call_shape (length requiredArguments) args = Inl MissingCallback"
    by (simp add: call_shape_def)
  with a show "request api this now (endPoint # args) net = (Inl MissingCallback, net)"
    by (simp add: request_def request_call_def spec_lookup_own)
next
  have "request_call api' this' now' arguments \<noteq> Inl MissingRequiredArgument"
    using call_shape_required
    by (auto simp: request_call_def call_shape_no_length Let_def
             split: prod.splits option.splits sum.splits if_splits)
  then show "fst (request api' this' now' arguments net') \<noteq> Inl MissingRequiredArgument"
    by (auto simp: request_def split: sum.splits)
qed

theorem missing_required_unreachable_witness:
  "map_of [(''funnels'', [''funnel_id''])] (to_string (JStr ''funnels'')) = Some [''funnel_id'']
   \<and> length [JFunc ''cb''] \<le> length [''funnel_id'']
   \<and> request [(''funnels'', [''funnel_id''])]
        \<lparr>key = ''K'', secret = ''S'', options = defaultOptions\<rparr> 0
        [JStr ''funnels'', JFunc ''cb''] [] = (Inl MissingCallback, [])"
  using missing_required_unreachable
    [of "[(''funnels'', [''funnel_id''])]" "JStr ''funnels''" "[''funnel_id'']" "[JFunc ''cb'']"
        "\<lparr>key = ''K'', secret = ''S'', options = defaultOptions\<rparr>" 0 "[]"]
  by simp




section \<open>The layers of the parameter object\<close>

text \<open>
  C6. The assembled parameter object has \<open>format = "json"\<close>, whatever the required
  values and the options are, and so has the query of every call that goes through:
  \<open>systemOptions\<close> is the first layer that defines \<open>format\<close>.
\<close>

theorem format_is_json:
  "get_prop (assemble this requiredArguments required opts now) ''format'' = JStr ''json''
   \<and> (request_call api this' now' arguments = Inr call
        \<longrightarrow> get_prop (url_query call) ''format'' = JStr ''json'')"
  by (auto simp: assemble_format request_call_def Let_def get_prop_set_prop
           split: prod.splits option.splits sum.splits if_splits)

theorem format_is_json_witness:
  "request_call [(''events/top'', [])] \<lparr>key = ''K'', secret = ''S'', options = defaultOptions\<rparr> 1000000
      [JStr ''events/top'', JObj [(''format'', JStr ''xml'')], JFunc ''cb'']
     = Inr \<lparr>url_protocol = ''https'', url_hostname = ''mixpanel.com'',
             url_pathname = (''/api/2.0'', JStr ''events/top''),
             url_query =
               [(''api_key'', JStr ''K''), (''format'', JStr ''json''), (''expire'', JNum 1060),
                (''sig'', JStr (sign \<lparr>key = ''K'', secret = ''S'', options = defaultOptions\<rparr>
                   [(''api_key'', JStr ''K''), (''format'', JStr ''json''),
                    (''expire'', JNum 1060)]))],
             on_response = JFunc ''cb''\<rparr>
   \<and> get_prop
         [(''api_key'', JStr ''K''), (''format'', JStr ''json''), (''expire'', JNum 1060),
          (''sig'', JStr (sign \<lparr>key = ''K'', secret = ''S'', options = defaultOptions\<rparr>
             [(''api_key'', JStr ''K''), (''format'', JStr ''json''),
              (''expire'', JNum 1060)]))] ''format'' = JStr ''json''"
proof -
  have call: "request_call [(''events/top'', [])] \<lparr>key = ''K'', secret = ''S'', options = defaultOptions\<rparr> 1000000
      [JStr ''events/top'', JObj [(''format'', JStr ''xml'')], JFunc ''cb'']
     = Inr \<lparr>url_protocol = ''https'', url_hostname = ''mixpanel.com'',
             url_pathname = (''/api/2.0'', JStr ''events/top''),
             url_query =
               [(''api_key'', JStr ''K''), (''format'', JStr ''json''), (''expire'', JNum 1060),
                (''sig'', JStr (sign \<lparr>key = ''K'', secret = ''S'', options = defaultOptions\<rparr>
                   [(''api_key'', JStr ''K''), (''format'', JStr ''json''),
                    (''expire'', JNum 1060)]))],
             on_response = JFunc ''cb''\<rparr>"
    by (simp add: request_eval)
  from format_is_json [THEN conjunct2, rule_format, OF call] call show ?thesis
    by simp
qed

text \<open>
  C1, as the code has it. The claim that the assembled \<open>expire\<close> is the current time
  in seconds plus the configured seconds whenever the options carry an \<open>expire\<close> key
  fails: for \<open>request('events/top', {expire: 1}, cb)\<close> at time 1000 s with the default
  60 s the assembled \<open>expire\<close> is the caller's 1, not 1060.
\<close>

theorem expire_override_counterexample:
  "request_call [(''events/top'', [])] \<lparr>key = ''K'', secret = ''S'', options = defaultOptions\<rparr> 1000000
      [JStr ''events/top'', JObj [(''expire'', JNum 1)], JFunc ''cb'']
     = Inr \<lparr>url_protocol = ''https'', url_hostname = ''mixpanel.com'',
             url_pathname = (''/api/2.0'', JStr ''events/top''),
             url_query =
               [(''api_key'', JStr ''K''), (''format'', JStr ''json''), (''expire'', JNum 1),
                (''sig'', JStr (sign \<lparr>key = ''K'', secret = ''S'', options = defaultOptions\<rparr>
                   [(''api_key'', JStr ''K''), (''format'', JStr ''json''),
                    (''expire'', JNum 1)]))],
             on_response = JFunc ''cb''\<rparr>
   \<and> get_prop (assemble \<lparr>key = ''K'', secret = ''S'', options = defaultOptions\<rparr> [] [] (JObj [(''expire'', JNum 1)]) 1000000) ''expire''
       \<noteq> JNum (1000000 div 1000 + expire (client.options \<lparr>key = ''K'', secret = ''S'', options = defaultOptions\<rparr>))"
  by (simp add: request_eval)

text \<open>
  C1, amended. On an endpoint with no required argument named \<open>expire\<close>: when the
  options carry an \<open>expire\<close> key with a defined value, the assembled \<open>expire\<close>
  is that caller-supplied value; the current time in seconds plus the configured seconds
  is the value only as a default, when the options have no \<open>expire\<close> key.
\<close>

theorem expire_first_layer_wins:
  assumes "''expire'' \<notin> set requiredArguments"
  shows "(get_prop (own_props opts) ''expire'' \<noteq> JUndefined
            \<longrightarrow> get_prop (assemble this requiredArguments required opts now) ''expire''
                  = get_prop (own_props opts) ''expire'')
       \<and> (''expire'' \<notin> fst ` set (own_props opts)
            \<longrightarrow> get_prop (assemble this requiredArguments required opts now) ''expire''
                  = JNum (now div 1000 + expire (client.options this)))"
proof -
  let ?d2 = "fold assign_default (zipObject requiredArguments required)
               (assign_default (''format'', JStr ''json'') [(''api_key'', JStr (key this))])"
  from assms have d2: "get_prop ?d2 ''expire'' = JUndefined"
    by (simp add: fold_assign_default_absent zipObject_key_absent base_layers)
  show ?thesis
  proof (intro conjI impI)
    assume "get_prop (own_props opts) ''expire'' \<noteq> JUndefined"
    with d2 have "get_prop (fold assign_default (own_props opts) ?d2) ''expire''
                    = get_prop (own_props opts) ''expire''"
      by (rule fold_assign_default_fills [OF own_names(3)])
    with \<open>get_prop (own_props opts) ''expire'' \<noteq> JUndefined\<close>
    show "get_prop (assemble this requiredArguments required opts now) ''expire''
            = get_prop (own_props opts) ''expire''"
      by (simp add: assemble_layers get_prop_assign_default defined_not_reads_undefined)
  next
    assume "''expire'' \<notin> fst ` set (own_props opts)"
    then have "get_prop (fold assign_default (own_props opts) ?d2) ''expire'' = JUndefined"
      using d2 by (simp add: fold_assign_default_absent)
    then show "get_prop (assemble this requiredArguments required opts now) ''expire''
            = JNum (now div 1000 + expire (client.options this))"
      by (simp add: assemble_layers get_prop_assign_default reads_undefined_own own_names)
  qed
qed

theorem expire_first_layer_wins_witness:
  "''expire'' \<notin> set []
   \<and> get_prop (own_props (JObj [(''expire'', JNum 1)])) ''expire'' \<noteq> JUndefined
   \<and> get_prop (assemble \<lparr>key = ''K'', secret = ''S'', options = defaultOptions\<rparr> [] [] (JObj [(''expire'', JNum 1)]) 1000000) ''expire'' = JNum 1
   \<and> ''expire'' \<notin> fst ` set (own_props (JObj [(''type'', JStr ''general'')]))
   \<and> get_prop (assemble \<lparr>key = ''K'', secret = ''S'', options = defaultOptions\<rparr> [] [] (JObj [(''type'', JStr ''general'')]) 1000000) ''expire''
       = JNum 1060"
proof -
  have r: "''expire'' \<notin> set []" by simp
  have a: "get_prop (own_props (JObj [(''expire'', JNum 1)])) ''expire'' \<noteq> JUndefined"
    by (simp add: get_prop_def)
  have b: "''expire'' \<notin> fst ` set (own_props (JObj [(''type'', JStr ''general'')]))"
    by simp
  from expire_first_layer_wins [OF r, of "JObj [(''expire'', JNum 1)]" "\<lparr>key = ''K'', secret = ''S'', options = defaultOptions\<rparr>" "[]" 1000000,
      THEN conjunct1, rule_format, OF a]
    expire_first_layer_wins [OF r, of "JObj [(''type'', JStr ''general'')]" "\<lparr>key = ''K'', secret = ''S'', options = defaultOptions\<rparr>" "[]" 1000000,
      THEN conjunct2, rule_format, OF b]
    r a b
  show ?thesis
    by (simp add: get_prop_def defaultOptions_def)
qed

text \<open>
  C2, as the code has it. The claim that an option sharing its key with a required
  argument wins fails: for \<open>request('funnels', 12345, {funnel_id: 99}, cb)\<close> the
  assembled \<open>funnel_id\<close> is the positional 12345, not 99.
\<close>

theorem options_override_counterexample:
  "request_call [(''funnels'', [''funnel_id''])] \<lparr>key = ''K'', secret = ''S'', options = defaultOptions\<rparr> 1000000
      [JStr ''funnels'', JNum 12345, JObj [(''funnel_id'', JNum 99)], JFunc ''cb'']
     = Inr \<lparr>url_protocol = ''https'', url_hostname = ''mixpanel.com'',
             url_pathname = (''/api/2.0'', JStr ''funnels''),
             url_query =
               [(''api_key'', JStr ''K''), (''format'', JStr ''json''),
                (''funnel_id'', JNum 12345), (''expire'', JNum 1060),
                (''sig'', JStr (sign \<lparr>key = ''K'', secret = ''S'', options = defaultOptions\<rparr>
                   [(''api_key'', JStr ''K''), (''format'', JStr ''json''),
                    (''funnel_id'', JNum 12345), (''expire'', JNum 1060)]))],
             on_response = JFunc ''cb''\<rparr>
   \<and> get_prop (assemble \<lparr>key = ''K'', secret = ''S'', options = defaultOptions\<rparr> [''funnel_id''] [JNum 12345] (JObj [(''funnel_id'', JNum 99)]) 1000000)
        ''funnel_id'' \<noteq> JNum 99"
  by (simp add: request_eval)

text \<open>
  C2, amended. For a required argument named \<open>k\<close> (the required names distinct,
  \<open>k\<close> neither \<open>api_key\<close> nor \<open>format\<close> nor the name of a member of
  \<open>Object.prototype\<close>) whose positional value is not undefined, the assembled value
  for \<open>k\<close> is the positional required value, whatever the options carry for \<open>k\<close>.
\<close>

theorem required_value_wins:
  assumes "distinct requiredArguments"
      and "i < length requiredArguments"
      and "length required = length requiredArguments"
      and "required ! i \<noteq> JUndefined"
      and "requiredArguments ! i \<noteq> ''api_key''"
      and "requiredArguments ! i \<noteq> ''format''"
      and "requiredArguments ! i \<notin> set object_prototype_names"
  shows "get_prop (assemble this requiredArguments required opts now) (requiredArguments ! i)
           = required ! i"
proof -
  let ?k = "requiredArguments ! i"
  let ?d1 = "assign_default (''format'', JStr ''json'') [(''api_key'', JStr (key this))]"
  let ?d2 = "fold assign_default (zipObject requiredArguments required) ?d1"
  from assms(7) have np: "?k \<noteq> ''__proto__''"
    by (auto simp: object_prototype_names_def)
  from assms(5,6) have "get_prop ?d1 ?k = JUndefined"
    by (simp add: base_layers)
  moreover from assms(1-4) np
  have z: "get_prop (zipObject requiredArguments required) ?k = required ! i"
    by (simp add: get_prop_zipObject index_nth)
  ultimately have "get_prop ?d2 ?k = required ! i"
    using assms(4)
      fold_assign_default_fills [OF assms(7), of ?d1 "zipObject requiredArguments required"]
    by simp
  with assms(4) show ?thesis
    by (simp add: assemble_layers get_prop_assign_default fold_assign_default_keeps
          defined_not_reads_undefined)
qed

theorem required_value_wins_witness:
  "distinct [''funnel_id''] \<and> 0 < length [''funnel_id'']
   \<and> length [JNum 12345] = length [''funnel_id'']
   \<and> [JNum 12345] ! 0 \<noteq> JUndefined
   \<and> [''funnel_id''] ! 0 \<noteq> ''api_key'' \<and> [''funnel_id''] ! 0 \<noteq> ''format''
   \<and> [''funnel_id''] ! 0 \<notin> set object_prototype_names
   \<and> get_prop (assemble \<lparr>key = ''K'', secret = ''S'', options = defaultOptions\<rparr> [''funnel_id''] [JNum 12345] (JObj [(''funnel_id'', JNum 99)]) 1000000)
         ''funnel_id'' = JNum 12345"
  using required_value_wins
    [of "[''funnel_id'']" 0 "[JNum 12345]" "\<lparr>key = ''K'', secret = ''S'', options = defaultOptions\<rparr>" "JObj [(''funnel_id'', JNum 99)]" 1000000]
  by (simp add: object_prototype_names_def object_prototype_methods_def)

text \<open>
  A required argument that is named as a member of the prototype is left out of the
  assembled object, whatever its value: the read in \<open>_.defaults\<close> finds the member.
\<close>

lemma inherited_name_not_assembled:
  "get_prop (assemble this [''constructor''] [JNum 5] (JObj []) now) ''constructor'' = JUndefined"
  by (simp add: request_eval)

section \<open>The secret\<close>

text \<open>
  C8. The secret reaches the outgoing request through \<open>sig\<close> only: the assembled
  parameter object is the same for any two secrets, and two clients that differ in
  nothing but the secret throw the same error or issue the same GET up to the
  \<open>sig\<close> entry of the query.
\<close>

theorem secret_only_in_sig:
  "assemble (this\<lparr>secret := s1\<rparr>) requiredArguments required opts now
     = assemble (this\<lparr>secret := s2\<rparr>) requiredArguments required opts now
   \<and> map_sum id (\<lambda>call. call\<lparr>url_query := filter (\<lambda>p. fst p \<noteq> ''sig'') (url_query call)\<rparr>)
         (request_call api (this\<lparr>secret := s1\<rparr>) now arguments)
     = map_sum id (\<lambda>call. call\<lparr>url_query := filter (\<lambda>p. fst p \<noteq> ''sig'') (url_query call)\<rparr>)
         (request_call api (this\<lparr>secret := s2\<rparr>) now arguments)"
  by (auto simp: assemble_def request_call_def Let_def filter_sig_set_prop
           split: prod.splits option.splits sum.splits if_splits)

section \<open>The generated methods\<close>





end
